theory Spec2Isabelle
  imports Complex_Main
begin

section \<open>Numbers, arrays and failures\<close>

text \<open>
  The pipeline of \<^verbatim>\<open>heart_api.py\<close> works on numpy arrays of floats. A finite float is
  the real number it denotes, and comparing two floats compares these numbers. The one
  float that is not a number and that the code can produce by itself is the NaN of a
  division of zero by zero, so an element of a waveform is either a number or NaN. Float
  arithmetic rounds: where the code computes with floats (the heart rate of line 103, the
  calls of \<^verbatim>\<open>round\<close>), the pipeline takes the computed value as a parameter, like the
  results of the libraries.
\<close>

datatype npfloat = Num real | NaN

text \<open>
  What a run can end with other than the result record: an exception (the two numpy raises
  on empty arrays and on indices out of range, and the read of an unbound local variable,
  Python's UnboundLocalError, which is a NameError), or the early return of the record
  \<^verbatim>\<open>{"error": ...}\<close>.
\<close>

datatype py_exception = ValueError | IndexError | NameError

datatype failure = Raised py_exception | ErrorDict string

text \<open>Whether a run ended with an exception, rather than with a \<^verbatim>\<open>return\<close>.\<close>

definition raised :: "failure + 'a \<Rightarrow> bool" where
  "raised out = (case out of Inl (Raised e) \<Rightarrow> True | _ \<Rightarrow> False)"

text \<open>\<^verbatim>\<open>np.max\<close> of an array of finite numbers; it raises ValueError on an empty array.\<close>

definition np_max :: "real list \<Rightarrow> failure + real" where
  "np_max xs = (case xs of [] \<Rightarrow> Inl (Raised ValueError) | y # ys \<Rightarrow> Inr (fold max ys y))"

text \<open>\<^verbatim>\<open>np.max\<close> and \<^verbatim>\<open>np.mean\<close> of a waveform: NaN propagates.\<close>

fun the_num :: "npfloat \<Rightarrow> real" where
  "the_num (Num x) = x"
| "the_num NaN = 0"

definition np_amax :: "npfloat list \<Rightarrow> failure + npfloat" where
  "np_amax xs =
     (if NaN \<in> set xs then Inr NaN
      else case np_max (map the_num xs) of Inl e \<Rightarrow> Inl e | Inr m \<Rightarrow> Inr (Num m))"

definition np_mean :: "npfloat list \<Rightarrow> npfloat" where
  "np_mean xs =
     (if xs = [] \<or> NaN \<in> set xs then NaN
      else Num (sum_list (map the_num xs) / real (length xs)))"

fun np_scale :: "npfloat \<Rightarrow> real \<Rightarrow> npfloat" where
  "np_scale (Num x) c = Num (x * c)"
| "np_scale NaN c = NaN"

text \<open>\<^verbatim>\<open>np.diff\<close> of an index array.\<close>

fun np_diff :: "nat list \<Rightarrow> int list" where
  "np_diff (x # y # ys) = (int y - int x) # np_diff (y # ys)"
| "np_diff [x] = []"
| "np_diff [] = []"

text \<open>The slice \<^verbatim>\<open>xs[a:b]\<close> for indices that are not negative.\<close>

definition slice :: "'a list \<Rightarrow> nat \<Rightarrow> nat \<Rightarrow> 'a list" where
  "slice xs a b = drop a (take b xs)"

text \<open>
  Rounding to \<open>nd\<close> decimals over the reals: the nearest number with \<open>nd\<close> decimals, a
  tie going to the even one. (The \<^verbatim>\<open>round\<close> of the code returns the float nearest to
  it; the test doubles below round with this function.)
\<close>

definition rint :: "real \<Rightarrow> int" where
  "rint x =
     (let f = \<lfloor>x\<rfloor> in
      if x - of_int f < 1 / 2 then f
      else if 1 / 2 < x - of_int f then f + 1
      else if even f then f else f + 1)"

definition py_round :: "real \<Rightarrow> nat \<Rightarrow> real" where
  "py_round x nd = of_int (rint (x * 10 ^ nd)) / 10 ^ nd"

section \<open>Heart-rate classification\<close>

text \<open>\<^verbatim>\<open>classify_hr_only(hr)\<close>: the status label and the colour of its text box.\<close>

definition classify_hr_only :: "real \<Rightarrow> string \<times> string" where
  "classify_hr_only hr =
     (if hr < 50 then (''Severe Bradycardia'', ''red'')
      else if 50 \<le> hr \<and> hr < 60 then (''Mild Bradycardia'', ''orange'')
      else if 60 \<le> hr \<and> hr \<le> 100 then (''Normal Heart Rate'', ''green'')
      else if 100 < hr \<and> hr \<le> 120 then (''Mild Tachycardia'', ''orange'')
      else if 120 < hr \<and> hr \<le> 150 then (''Moderate Tachycardia'', ''red'')
      else (''Severe Tachycardia'', ''darkred''))"

text \<open>
  The expression of line 103, \<^verbatim>\<open>60 / np.mean(np.diff(peaks)/sr)\<close>, read over the reals.
  It is reached with at least three peaks; scipy's \<^verbatim>\<open>find_peaks\<close> returns strictly
  increasing indices, so the mean is positive. The code evaluates the expression in
  float64, where every division and every sum rounds: the value it gets is the parameter
  \<open>f64_heart_rate\<close> of the pipeline below.
\<close>

definition heart_rate_of :: "nat list \<Rightarrow> nat \<Rightarrow> real" where
  "heart_rate_of peaks sr =
     (let intervals = map (\<lambda>d. real_of_int d / real sr) (np_diff peaks)
      in 60 / (sum_list intervals / real (length intervals)))"

section \<open>Float64 rounding\<close>





section \<open>The libraries and the pretrained artifacts\<close>

text \<open>
  librosa, scipy, scikit-learn and matplotlib are not part of the repository, and the scaler
  and the classifier are loaded from files. The pipeline takes what they compute as
  parameters: \<open>hilbert_abs\<close> stands for \<^verbatim>\<open>np.abs(hilbert(.))\<close>, \<open>predict_proba\<close> returns
  the two class probabilities of every row, \<open>savefig\<close> the encoded image of a figure
  (of a type \<open>'img\<close> that the pipeline only passes on). \<open>filtfilt\<close> may refuse its input
  (scipy raises ValueError when the signal is not longer than its padding); the other
  libraries are total functions, the exceptions they raise on an input they refuse being
  outside the model. \<open>f64_heart_rate peaks sr\<close> is the float64 value of the expression of
  line 103 and \<open>f64_round x nd\<close> the value of \<^verbatim>\<open>float(round(x, nd))\<close>. A figure is the list
  of what the code draws on it, in order; the calls that draw nothing that depends on the
  data are \<open>Decor\<close> with the name of the call.
\<close>

datatype artist =
    Plot "real list" "npfloat list"
  | AxVLine real
  | PeakText real npfloat string string
  | AxVSpan real real string
  | BarH real real string
  | HRBox real string string
  | XLim real real
  | Decor string

type_synonym figure = "artist list"

text \<open>The figures that pyplot holds open, in the order of their numbers.\<close>

type_synonym pyplot = "figure list"

record 'img externals =
  librosa_load :: "string \<Rightarrow> real list \<times> nat"
  librosa_resample :: "real list \<Rightarrow> nat \<Rightarrow> nat \<Rightarrow> real list"
  butter :: "nat \<Rightarrow> real \<times> real \<Rightarrow> real list \<times> real list"
  filtfilt :: "real list \<times> real list \<Rightarrow> npfloat list \<Rightarrow> failure + npfloat list"
  hilbert_abs :: "npfloat list \<Rightarrow> npfloat list"
  find_peaks :: "npfloat list \<Rightarrow> real \<Rightarrow> npfloat \<Rightarrow> nat list"
  librosa_mfcc :: "npfloat list \<Rightarrow> nat \<Rightarrow> nat \<Rightarrow> nat \<Rightarrow> nat \<Rightarrow> real list list"
  scaler_transform :: "real list list \<Rightarrow> real list list"
  predict_proba :: "real list list \<Rightarrow> (real \<times> real) list"
  savefig :: "figure \<Rightarrow> 'img"
  f64_heart_rate :: "nat list \<Rightarrow> nat \<Rightarrow> real"
  f64_round :: "real \<Rightarrow> nat \<Rightarrow> real"

section \<open>Filtering and feature extraction\<close>

definition butter_bandpass_filter ::
  "'img externals \<Rightarrow> npfloat list \<Rightarrow> real \<Rightarrow> real \<Rightarrow> nat \<Rightarrow> nat \<Rightarrow> failure + npfloat list" where
  "butter_bandpass_filter E data lowcut highcut fs order =
     (let nyq = 0.5 * real fs;
          ba = butter E order (lowcut / nyq, highcut / nyq)
      in filtfilt E ba data)"

text \<open>
  A two-dimensional array is the list of its rows; \<open>shape1\<close> is \<^verbatim>\<open>shape[1]\<close>, the number
  of columns (librosa returns \<open>n_mfcc\<close> rows, one column per frame).
\<close>

definition shape1 :: "'a list list \<Rightarrow> nat" where
  "shape1 m = (case m of [] \<Rightarrow> 0 | r # _ \<Rightarrow> length r)"

text \<open>
  Lines 39 to 41 of \<^verbatim>\<open>extract_mfcc\<close>: cut or pad the frames, then flatten row by row.
  The conversion of the cycle to single precision is part of \<open>librosa_mfcc\<close>.
\<close>

definition fix_frames :: "real list list \<Rightarrow> nat \<Rightarrow> real list list" where
  "fix_frames mfcc max_len =
     (if max_len < shape1 mfcc then map (take max_len) mfcc
      else map (\<lambda>r. r @ replicate (max_len - shape1 mfcc) 0) mfcc)"

definition extract_mfcc ::
  "'img externals \<Rightarrow> npfloat list \<Rightarrow> nat \<Rightarrow> nat \<Rightarrow> nat \<Rightarrow> real list" where
  "extract_mfcc E cycle sr n_mfcc max_len =
     concat (fix_frames (librosa_mfcc E cycle sr n_mfcc 512 128) max_len)"

section \<open>The pipeline\<close>

text \<open>
  Line 95, \<^verbatim>\<open>audio /= np.max(np.abs(audio))\<close>. The maximum is zero only when every sample
  is zero, and numpy's division of zero by zero is NaN with a warning (which line 12
  silences), not an exception.
\<close>

definition normalize_audio :: "real list \<Rightarrow> failure + npfloat list" where
  "normalize_audio audio =
     (case np_max (map abs audio) of
        Inl e \<Rightarrow> Inl e
      | Inr m \<Rightarrow>
          if m = 0 then Inr (map (\<lambda>x. NaN) audio)
          else Inr (map (\<lambda>x. Num (x / m)) audio))"

text \<open>Lines 90 to 93: load the file and bring it to 1000 Hz.\<close>

definition load_audio :: "'img externals \<Rightarrow> string \<Rightarrow> real list \<times> nat" where
  "load_audio E audio_path =
     (let (audio, sr) = librosa_load E audio_path
      in if sr \<noteq> 1000 then (librosa_resample E audio sr 1000, 1000) else (audio, sr))"

text \<open>Lines 95 to 97: normalise, filter, envelope.\<close>

definition filter_stage ::
  "'img externals \<Rightarrow> string \<Rightarrow> failure + (npfloat list \<times> npfloat list \<times> nat)" where
  "filter_stage E audio_path =
     (let (audio, sr) = load_audio E audio_path
      in case normalize_audio audio of
           Inl e \<Rightarrow> Inl e
         | Inr normalized \<Rightarrow>
             (case butter_bandpass_filter E normalized 25 400 sr 4 of
                Inl e \<Rightarrow> Inl e
              | Inr filtered \<Rightarrow>
                  let envelope = hilbert_abs E filtered
                  in Inr (filtered, envelope, sr)))"

text \<open>Line 99: the peaks of the envelope.\<close>

definition detect_peaks :: "'img externals \<Rightarrow> npfloat list \<Rightarrow> nat \<Rightarrow> nat list" where
  "detect_peaks E envelope sr =
     find_peaks E envelope (0.4 * real sr) (np_scale (np_mean envelope) 1.2)"

text \<open>Lines 90 to 101: the stages above, and the early return on fewer than three peaks.\<close>

definition signal_stage ::
  "'img externals \<Rightarrow> string \<Rightarrow> failure + (npfloat list \<times> nat list \<times> nat)" where
  "signal_stage E audio_path =
     (case filter_stage E audio_path of
        Inl e \<Rightarrow> Inl e
      | Inr (filtered, envelope, sr) \<Rightarrow>
          let peaks = detect_peaks E envelope sr
          in if length peaks < 3 then Inl (ErrorDict ''Not enough heart beats detected'')
             else Inr (filtered, peaks, sr))"

text \<open>Lines 106 to 109: the loop over \<^verbatim>\<open>range(len(peaks)-2)\<close>.\<close>

definition segment_cycles ::
  "npfloat list \<Rightarrow> nat list \<Rightarrow> nat \<Rightarrow> npfloat list list \<times> (real \<times> real) list" where
  "segment_cycles filtered peaks sr =
     fold (\<lambda>i (cycles, cycle_times).
             (cycles @ [slice filtered (peaks ! i) (peaks ! (i + 2))],
              cycle_times @ [(real (peaks ! i) / real sr, real (peaks ! (i + 2)) / real sr)]))
          [0..<length peaks - 2] ([], [])"

text \<open>Lines 111 and 112: scale the features, take the probability of class 1.\<close>

definition score_cycles :: "'img externals \<Rightarrow> npfloat list list \<Rightarrow> nat \<Rightarrow> real list" where
  "score_cycles E cycles sr =
     map snd (predict_proba E (scaler_transform E (map (\<lambda>c. extract_mfcc E c sr 13 260) cycles)))"

text \<open>
  Lines 117 to 131. The locals \<^verbatim>\<open>t\<close> and \<^verbatim>\<open>max_amp\<close> are assigned in the last branch
  only, both or none: the third component is their pair when they are bound.
\<close>

definition assign_risk ::
  "real \<Rightarrow> npfloat list \<Rightarrow> nat \<Rightarrow> failure + (string \<times> string \<times> (real list \<times> npfloat) option)" where
  "assign_risk max_prob filtered sr =
     (if max_prob < 0.30 then Inr (''Normal Heart Sound'', ''low'', None)
      else if max_prob < 0.45 then Inr (''Murmur / Borderline'', ''medium'', None)
      else if max_prob < 0.60 then Inr (''Mild Abnormality'', ''high'', None)
      else case np_amax filtered of
             Inl e \<Rightarrow> Inl e
           | Inr max_amp \<Rightarrow>
               Inr (''Severe Abnormality'', ''critical'',
                    Some (map (\<lambda>k. real k / real sr) [0..<length filtered], max_amp)))"

section \<open>Figures and the returned record\<close>

text \<open>Lines 136 to 149: a line and a label for every peak.\<close>

definition peak_marks :: "nat list \<Rightarrow> nat \<Rightarrow> npfloat \<Rightarrow> artist list" where
  "peak_marks peaks sr max_amp =
     concat (map (\<lambda>(i, p).
                    [AxVLine (real p / real sr),
                     PeakText (real p / real sr) (np_scale max_amp 1.05)
                       (if i mod 2 = 0 then ''S1 (Lub)'' else ''S2 (Dub)'')
                       (if i mod 2 = 0 then ''purple'' else ''darkcyan'')])
                 (enumerate 0 peaks))"

text \<open>Lines 151 to 159, for the first \<open>k\<close> cycles: the systole and the diastole of each.\<close>

definition cycle_spans :: "nat list \<Rightarrow> nat \<Rightarrow> real list \<Rightarrow> nat \<Rightarrow> artist list" where
  "cycle_spans peaks sr probs k =
     concat (map (\<lambda>i.
                    let s1 = peaks ! i; s2 = peaks ! (i + 1); s1_next = peaks ! (i + 2);
                        prob = probs ! i;
                        sys_color = (if 0.45 < prob then ''red'' else ''lightblue'');
                        dia_color = (if 0.45 < prob then ''darkred'' else ''plum'')
                    in [AxVSpan (real s1 / real sr) (real s2 / real sr) sys_color,
                        AxVSpan (real s2 / real sr) (real s1_next / real sr) dia_color])
                 [0..<k])"

text \<open>
  \<^verbatim>\<open>plot_sound_timeline\<close> draws a new figure, one bar for every probability; reading
  \<^verbatim>\<open>cycle_times[i]\<close> raises IndexError when there are more probabilities than cycles.
\<close>

definition plot_sound_timeline ::
  "(real \<times> real) list \<Rightarrow> real list \<Rightarrow> real \<Rightarrow> py_exception option \<times> figure" where
  "plot_sound_timeline cycle_times probs audio_duration =
     (let bars = map (\<lambda>i.
                        let (start, stop) = cycle_times ! i;
                            prob = probs ! i;
                            color = (if prob < 0.30 then ''green''
                                     else if prob < 0.45 then ''orange'' else ''red'')
                        in BarH (stop - start) start color)
                     [0..<min (length probs) (length cycle_times)]
      in if length cycle_times < length probs then (Some IndexError, bars)
         else (None, bars @ [XLim 0 audio_duration, Decor ''set_yticks'', Decor ''set_xlabel'',
                             Decor ''set_title'', Decor ''legend'']))"

text \<open>The dictionary that line 199 returns.\<close>

record 'img analysis_result =
  prediction :: string
  probability :: real
  heart_rate :: real
  hr_status :: string
  risk_level :: string
  images :: "'img list"
  num_cycles :: nat

text \<open>
  Lines 115 to 207. \<^verbatim>\<open>plt.subplots\<close> opens a new figure; an exception leaves the figures
  open as they are; the loop of line 191 encodes every figure that pyplot holds open and
  closes it.
\<close>

definition report ::
  "'img externals \<Rightarrow> npfloat list \<Rightarrow> nat list \<Rightarrow> nat \<Rightarrow> real \<Rightarrow> string \<Rightarrow> string \<Rightarrow>
   npfloat list list \<Rightarrow> (real \<times> real) list \<Rightarrow> real list \<Rightarrow> pyplot \<Rightarrow>
   (failure + 'img analysis_result) \<times> pyplot" where
  "report E filtered peaks sr hr status hr_color cycles cycle_times probs st =
     (case np_max probs of
        Inl e \<Rightarrow> (Inl e, st)
      | Inr max_prob \<Rightarrow>
          (case assign_risk max_prob filtered sr of
             Inl e \<Rightarrow> (Inl e, st)
           | Inr (final_prediction, risk, plot_vars) \<Rightarrow>
               (case plot_vars of
                  None \<Rightarrow> (Inl (Raised NameError), st @ [[]])
                | Some (t, max_amp) \<Rightarrow>
                    let marks = Plot t filtered # peak_marks peaks sr max_amp
                    in if length probs < length peaks - 2
                       then (Inl (Raised IndexError),
                             st @ [marks @ cycle_spans peaks sr probs (length probs)])
                       else
                         let fig = marks @ cycle_spans peaks sr probs (length peaks - 2) @
                                   [Decor ''legend'', Decor ''set_title'',
                                    HRBox (f64_round E hr 1) status hr_color,
                                    Decor ''set_xlabel'', Decor ''set_ylabel'']
                         in (case plot_sound_timeline cycle_times probs
                                    (real (length filtered) / real sr) of
                               (Some e, timeline) \<Rightarrow> (Inl (Raised e), st @ [fig, timeline])
                             | (None, timeline) \<Rightarrow>
                                 (Inr \<lparr>prediction = final_prediction,
                                       probability = f64_round E max_prob 3,
                                       heart_rate = f64_round E hr 1,
                                       hr_status = status,
                                       risk_level = risk,
                                       images = map (savefig E) (st @ [fig, timeline]),
                                       num_cycles = length cycles\<rparr>,
                                  [])))))"

text \<open>
  \<^verbatim>\<open>analyze_heart_sound\<close>, from line 90 on; the scaler and the classifier that lines 87
  and 88 load are in \<open>E\<close>. The second argument and result are the figures open in pyplot
  before and after the call.
\<close>

definition analyze_heart_sound ::
  "'img externals \<Rightarrow> string \<Rightarrow> pyplot \<Rightarrow> (failure + 'img analysis_result) \<times> pyplot" where
  "analyze_heart_sound E audio_path st =
     (case signal_stage E audio_path of
        Inl e \<Rightarrow> (Inl e, st)
      | Inr (filtered, peaks, sr) \<Rightarrow>
          let hr = f64_heart_rate E peaks sr;
              (status, hr_color) = classify_hr_only hr;
              (cycles, cycle_times) = segment_cycles filtered peaks sr;
              probs = score_cycles E cycles sr
          in report E filtered peaks sr hr status hr_color cycles cycle_times probs st)"

section \<open>The specification's heart rate\<close>


section \<open>Test doubles\<close>

text \<open>
  A stand-in for the libraries and the artifacts, as a test of the pipeline would stub them:
  the file holds \<open>audio\<close> at 1000 Hz; the filter has the \<open>2 * order + 1\<close> coefficients of
  a band-pass, refuses as scipy does a signal that is not longer than three times their
  number, and passes any other signal on, as the envelope does; the peak detector reports
  \<open>peaks\<close>; the classifier gives the cycles the probabilities \<open>probs\<close>; the image of a
  figure is the figure itself; the heart rate and the roundings are computed over the
  reals.
\<close>

definition stub_env :: "real list \<Rightarrow> nat list \<Rightarrow> real list \<Rightarrow> figure externals" where
  "stub_env audio peaks probs =
     \<lparr>librosa_load = (\<lambda>path. (audio, 1000)),
      librosa_resample = (\<lambda>y orig_sr target_sr. y),
      butter = (\<lambda>order wn. (replicate (2 * order + 1) 0, replicate (2 * order + 1) 0)),
      filtfilt = (\<lambda>(b, a) data.
                    if length data \<le> 3 * max (length a) (length b) then Inl (Raised ValueError)
                    else Inr data),
      hilbert_abs = (\<lambda>x. x),
      find_peaks = (\<lambda>x distance height. peaks),
      librosa_mfcc = (\<lambda>y sr n_mfcc n_fft hop_length. replicate n_mfcc []),
      scaler_transform = (\<lambda>X. X),
      predict_proba = (\<lambda>X. map (\<lambda>p. (1 - p, p)) probs),
      savefig = (\<lambda>fig. fig),
      f64_heart_rate = heart_rate_of,
      f64_round = py_round\<rparr>"

text \<open>
  A recording of five unit pulses one second apart, five seconds at 1000 Hz. With the
  pass-through filter and envelope of \<open>stub_env\<close>, its peaks are at the samples 500, 1500,
  2500, 3500 and 4500.
\<close>

definition pulse_audio :: "real list" where
  "pulse_audio = concat (replicate 5 (replicate 500 0 @ [1] @ replicate 499 0))"

section \<open>Maxima\<close>

lemma np_max_Max:
  assumes "xs \<noteq> []"
  shows "np_max xs = Inr (Max (set xs))"
proof (cases xs)
  case Nil
  with assms show ?thesis by simp
next
  case (Cons y ys)
  then show ?thesis
    using Max.set_eq_fold [of y ys] by (simp add: np_max_def)
qed

lemma np_amax_nonempty: "filtered \<noteq> [] \<Longrightarrow> \<exists>m. np_amax filtered = Inr m"
  by (cases filtered) (simp_all add: np_amax_def np_max_def)

section \<open>The heart rate over the reals\<close>



section \<open>The stubbed recording\<close>

lemma pulse_audio_max: "np_max (map abs pulse_audio) = Inr 1"
proof -
  have "map abs pulse_audio \<noteq> []" by (simp add: pulse_audio_def)
  moreover have "set (map abs pulse_audio) = {0, 1}"
    by (auto simp: pulse_audio_def)
  ultimately show ?thesis by (simp add: np_max_Max)
qed

lemma pulse_audio_normalized: "normalize_audio pulse_audio = Inr (map Num pulse_audio)"
  by (simp add: normalize_audio_def pulse_audio_max)

lemma length_pulse_audio: "length pulse_audio = 5000"
  by (simp add: pulse_audio_def length_concat sum_list_replicate)

lemma stub_load: "load_audio (stub_env audio peaks probs) path = (audio, 1000)"
  by (simp add: load_audio_def stub_env_def)

lemma stub_filter:
  "butter_bandpass_filter (stub_env audio peaks probs) data lowcut highcut fs 4 =
     (if length data \<le> 27 then Inl (Raised ValueError) else Inr data)"
  by (simp add: butter_bandpass_filter_def stub_env_def Let_def)

lemma stub_envelope: "hilbert_abs (stub_env audio peaks probs) x = x"
  by (simp add: stub_env_def)

lemma pulse_filter:
  "filter_stage (stub_env pulse_audio peaks probs) path =
     Inr (map Num pulse_audio, map Num pulse_audio, 1000)"
  by (simp add: filter_stage_def stub_load pulse_audio_normalized stub_filter stub_envelope
      length_pulse_audio Let_def)

lemma stub_peaks: "detect_peaks (stub_env audio peaks probs) envelope sr = peaks"
  by (simp add: detect_peaks_def stub_env_def)

lemma pulse_signal:
  "signal_stage (stub_env pulse_audio peaks probs) path =
     (if length peaks < 3 then Inl (ErrorDict ''Not enough heart beats detected'')
      else Inr (map Num pulse_audio, peaks, 1000))"
  by (simp add: signal_stage_def pulse_filter stub_peaks Let_def)

lemma pulse_amax: "np_amax (map Num pulse_audio) = Inr (Num 1)"
proof -
  have "map (the_num \<circ> Num) pulse_audio = pulse_audio" by (simp add: comp_def)
  moreover have "np_max pulse_audio = Inr 1"
  proof -
    have "pulse_audio \<noteq> []" by (simp add: pulse_audio_def)
    moreover have "set pulse_audio = {0, 1}" by (auto simp: pulse_audio_def)
    ultimately show ?thesis by (simp add: np_max_Max)
  qed
  ultimately show ?thesis by (auto simp: np_amax_def)
qed




lemma stub_scores: "score_cycles (stub_env audio peaks probs) cycles sr = probs"
  by (simp add: score_cycles_def stub_env_def comp_def)

section \<open>Cycle segmentation\<close>

lemma fold_append_pairs:
  "fold (\<lambda>i (cs, ts). (cs @ [g i], ts @ [h i])) [0..<k] (cs0, ts0) =
     (cs0 @ map g [0..<k], ts0 @ map h [0..<k])"
  by (induction k) simp_all

lemma segment_cycles_map:
  "segment_cycles filtered peaks sr =
     (map (\<lambda>i. slice filtered (peaks ! i) (peaks ! (i + 2))) [0..<length peaks - 2],
      map (\<lambda>i. (real (peaks ! i) / real sr, real (peaks ! (i + 2)) / real sr))
          [0..<length peaks - 2])"
  unfolding segment_cycles_def by (simp add: fold_append_pairs)

lemma slice_nth:
  assumes "a \<le> b" and "b \<le> length xs"
  shows "length (slice xs a b) = b - a \<and> (\<forall>j<b - a. slice xs a b ! j = xs ! (a + j))"
  using assms by (simp add: slice_def)

text \<open>
  Claim C6. For a peak sequence of \<open>n \<ge> 3\<close> peaks the segmenter builds \<open>n - 2\<close> cycles
  and as many time spans; cycle \<open>i\<close> is the slice of the filtered signal from \<open>p[i]\<close>
  (included) to \<open>p[i+2]\<close> (excluded), that is the samples \<open>p[i], ..., p[i+2] - 1\<close> when
  the two peaks are in order and inside the signal, and its time span is
  \<open>(p[i]/sr, p[i+2]/sr)\<close>.
\<close>

theorem segmenter_cycles:
  assumes "3 \<le> length peaks"
  shows "length (fst (segment_cycles filtered peaks sr)) = length peaks - 2 \<and>
         length (snd (segment_cycles filtered peaks sr)) =
           length (fst (segment_cycles filtered peaks sr)) \<and>
         (\<forall>i<length peaks - 2.
            fst (segment_cycles filtered peaks sr) ! i =
              slice filtered (peaks ! i) (peaks ! (i + 2)) \<and>
            snd (segment_cycles filtered peaks sr) ! i =
              (real (peaks ! i) / real sr, real (peaks ! (i + 2)) / real sr) \<and>
            (peaks ! i \<le> peaks ! (i + 2) \<and> peaks ! (i + 2) \<le> length filtered \<longrightarrow>
               length (slice filtered (peaks ! i) (peaks ! (i + 2))) = peaks ! (i + 2) - peaks ! i \<and>
               (\<forall>j<peaks ! (i + 2) - peaks ! i.
                  slice filtered (peaks ! i) (peaks ! (i + 2)) ! j = filtered ! (peaks ! i + j))))"
  using slice_nth [of _ _ filtered] by (simp add: segment_cycles_map)

theorem segmenter_cycles_witness:
  "3 \<le> length [0, 2, 3, 5 :: nat] \<and>
   segment_cycles [Num 0, Num 1, Num 2, Num 3, Num 4, Num 5] [0, 2, 3, 5] 1000 =
     ([[Num 0, Num 1, Num 2], [Num 2, Num 3, Num 4]], [(0, 3 / 1000), (2 / 1000, 5 / 1000)])"
  using segmenter_cycles [of "[0, 2, 3, 5]" "[Num 0, Num 1, Num 2, Num 3, Num 4, Num 5]" 1000]
  by (simp add: segment_cycles_map slice_def)

section \<open>Feature vectors\<close>

lemma length_concat_const:
  assumes "\<forall>r\<in>set m. length r = k"
  shows "length (concat m) = length m * k"
  using assms by (induction m) simp_all

lemma shape1_rows:
  assumes "m \<noteq> []" and "\<forall>r\<in>set m. length r = frames"
  shows "shape1 m = frames"
  using assms by (cases m) (simp_all add: shape1_def)

text \<open>
  Claim C7. Whatever the duration of the cycle, when librosa returns its 13 rows of
  \<open>frames\<close> coefficients each, the feature vector has \<open>13 * 260\<close> entries: every row is
  cut to its first 260 frames when \<open>frames > 260\<close>, and is followed by \<open>260 - frames\<close>
  zeros otherwise, and the rows are laid one after the other.
\<close>

theorem fixed_length_features:
  assumes "length (librosa_mfcc E cycle sr 13 512 128) = 13"
    and "\<forall>r\<in>set (librosa_mfcc E cycle sr 13 512 128). length r = frames"
  shows "length (extract_mfcc E cycle sr 13 260) = 13 * 260 \<and>
         extract_mfcc E cycle sr 13 260 =
           concat (map (\<lambda>r. if 260 < frames then take 260 r else r @ replicate (260 - frames) 0)
                       (librosa_mfcc E cycle sr 13 512 128))"
proof -
  let ?m = "librosa_mfcc E cycle sr 13 512 128"
  have ne: "?m \<noteq> []" using assms(1) by auto
  have sh: "shape1 ?m = frames" using shape1_rows [OF ne assms(2)] .
  have fx: "fix_frames ?m 260 =
      map (\<lambda>r. if 260 < frames then take 260 r else r @ replicate (260 - frames) 0) ?m"
    by (simp add: fix_frames_def sh)
  have "\<forall>r\<in>set (fix_frames ?m 260). length r = 260"
    using assms(2) by (auto simp: fx)
  then have "length (concat (fix_frames ?m 260)) = length (fix_frames ?m 260) * 260"
    by (rule length_concat_const)
  moreover have "length (fix_frames ?m 260) = 13"
    using assms(1) by (simp add: fx)
  ultimately show ?thesis by (simp add: extract_mfcc_def fx)
qed

theorem fixed_length_features_witness:
  "length (extract_mfcc
      ((stub_env [] [] [])\<lparr>librosa_mfcc := \<lambda>y sr n_mfcc n_fft hop_length.
                                           replicate n_mfcc (replicate 300 1)\<rparr>)
      [Num 1] 1000 13 260) = 3380 \<and>
   length (extract_mfcc
      ((stub_env [] [] [])\<lparr>librosa_mfcc := \<lambda>y sr n_mfcc n_fft hop_length.
                                           replicate n_mfcc (replicate 40 1)\<rparr>)
      [Num 1] 1000 13 260) = 3380"
proof
  let ?E = "(stub_env [] [] [])\<lparr>librosa_mfcc := \<lambda>y sr n_mfcc n_fft hop_length.
                                           replicate n_mfcc (replicate 300 1)\<rparr>"
  have rows: "length (librosa_mfcc ?E [Num 1] 1000 13 512 128) = 13" by simp
  have cols: "\<forall>r\<in>set (librosa_mfcc ?E [Num 1] 1000 13 512 128). length r = 300" by simp
  have "length (extract_mfcc ?E [Num 1] 1000 13 260) = 13 * 260"
    using fixed_length_features [OF rows cols] by (rule conjunct1)
  then show "length (extract_mfcc ?E [Num 1] 1000 13 260) = 3380" by simp
next
  let ?E = "(stub_env [] [] [])\<lparr>librosa_mfcc := \<lambda>y sr n_mfcc n_fft hop_length.
                                           replicate n_mfcc (replicate 40 1)\<rparr>"
  have rows: "length (librosa_mfcc ?E [Num 1] 1000 13 512 128) = 13" by simp
  have cols: "\<forall>r\<in>set (librosa_mfcc ?E [Num 1] 1000 13 512 128). length r = 40" by simp
  have "length (extract_mfcc ?E [Num 1] 1000 13 260) = 13 * 260"
    using fixed_length_features [OF rows cols] by (rule conjunct1)
  then show "length (extract_mfcc ?E [Num 1] 1000 13 260) = 3380" by simp
qed

section \<open>The report stage\<close>

lemma assign_risk_below:
  "p < 0.60 \<Longrightarrow> \<exists>a b. assign_risk p filtered sr = Inr (a, b, None)"
  by (simp add: assign_risk_def)

lemma assign_risk_Some:
  assumes "assign_risk p filtered sr = Inr (a, b, Some v)"
  shows "0.60 \<le> p \<and> a = ''Severe Abnormality'' \<and> b = ''critical'' \<and>
         (\<exists>m. np_amax filtered = Inr m \<and> v = (map (\<lambda>k. real k / real sr) [0..<length filtered], m))"
  using assms by (auto simp: assign_risk_def split: if_splits sum.splits)

lemma report_below:
  assumes "np_max probs = Inr p" and "p < 0.60"
  shows "report E filtered peaks sr hr status hr_color cycles cycle_times probs st =
           (Inl (Raised NameError), st @ [[]])"
proof -
  obtain a b where "assign_risk p filtered sr = Inr (a, b, None)"
    using assign_risk_below [OF assms(2)] by blast
  with assms(1) show ?thesis by (simp add: report_def)
qed

lemma report_Inr:
  assumes "report E filtered peaks sr hr status hr_color cycles cycle_times probs st = (Inr r, st')"
  shows "\<exists>p t max_amp timeline.
           np_max probs = Inr p \<and> 0.60 \<le> p \<and>
           assign_risk p filtered sr = Inr (''Severe Abnormality'', ''critical'', Some (t, max_amp)) \<and>
           length peaks - 2 \<le> length probs \<and> length probs \<le> length cycle_times \<and>
           plot_sound_timeline cycle_times probs (real (length filtered) / real sr) = (None, timeline) \<and>
           st' = [] \<and>
           r = \<lparr>prediction = ''Severe Abnormality'',
                 probability = f64_round E p 3,
                 heart_rate = f64_round E hr 1,
                 hr_status = status,
                 risk_level = ''critical'',
                 images = map (savefig E)
                   (st @ [Plot t filtered # peak_marks peaks sr max_amp @
                          cycle_spans peaks sr probs (length peaks - 2) @
                          [Decor ''legend'', Decor ''set_title'',
                           HRBox (f64_round E hr 1) status hr_color,
                           Decor ''set_xlabel'', Decor ''set_ylabel''],
                          timeline]),
                 num_cycles = length cycles\<rparr>"
proof -
  obtain p where p: "np_max probs = Inr p"
    using assms by (cases "np_max probs") (auto simp: report_def)
  obtain a b v where ar: "assign_risk p filtered sr = Inr (a, b, v)"
    using assms p by (cases "assign_risk p filtered sr") (auto simp: report_def)
  obtain t max_amp where v: "v = Some (t, max_amp)"
    using assms p ar by (cases v) (auto simp: report_def)
  note crit = assign_risk_Some [OF ar [unfolded v]]
  have len: "\<not> length probs < length peaks - 2"
    using assms p ar v by (auto simp: report_def Let_def split: if_splits)
  obtain ex timeline where tl:
    "plot_sound_timeline cycle_times probs (real (length filtered) / real sr) = (ex, timeline)"
    by (cases "plot_sound_timeline cycle_times probs (real (length filtered) / real sr)") auto
  have ex: "ex = None"
    using assms p ar v len tl by (cases ex) (auto simp: report_def Let_def)
  have len2: "length probs \<le> length cycle_times"
    using tl ex by (auto simp: plot_sound_timeline_def Let_def split: if_splits)
  show ?thesis
    using assms p ar v len tl ex crit len2
    by (auto simp: report_def Let_def)
qed

lemma report_state:
  "report E filtered peaks sr hr status hr_color cycles cycle_times probs st =
     (case report E filtered peaks sr hr status hr_color cycles cycle_times probs [] of
        (Inl e, figs) \<Rightarrow> (Inl e, st @ figs)
      | (Inr r, figs) \<Rightarrow> (Inr (r\<lparr>images := map (savefig E) st @ images r\<rparr>), []))"
  by (simp add: report_def Let_def split: sum.splits option.splits prod.splits)

lemma analyze_reaches_report:
  assumes "signal_stage E audio_path = Inr (filtered, peaks, sr)"
  shows "analyze_heart_sound E audio_path st =
           report E filtered peaks sr (f64_heart_rate E peaks sr)
             (fst (classify_hr_only (f64_heart_rate E peaks sr)))
             (snd (classify_hr_only (f64_heart_rate E peaks sr)))
             (fst (segment_cycles filtered peaks sr)) (snd (segment_cycles filtered peaks sr))
             (score_cycles E (fst (segment_cycles filtered peaks sr)) sr) st"
  using assms by (simp add: analyze_heart_sound_def Let_def split_beta)

lemma analyze_state:
  "analyze_heart_sound E audio_path st =
     (case analyze_heart_sound E audio_path [] of
        (Inl e, figs) \<Rightarrow> (Inl e, st @ figs)
      | (Inr r, figs) \<Rightarrow> (Inr (r\<lparr>images := map (savefig E) st @ images r\<rparr>), []))"
proof (cases "signal_stage E audio_path")
  case (Inl e)
  then show ?thesis by (simp add: analyze_heart_sound_def)
next
  case (Inr x)
  obtain filtered peaks sr where x: "signal_stage E audio_path = Inr (filtered, peaks, sr)"
    using Inr by (cases x) auto
  show ?thesis
    unfolding analyze_reaches_report [OF x] by (rule report_state)
qed

lemma analyze_Inr:
  assumes "analyze_heart_sound E audio_path st = (Inr r, st')"
  shows "\<exists>filtered peaks sr. signal_stage E audio_path = Inr (filtered, peaks, sr) \<and>
           report E filtered peaks sr (f64_heart_rate E peaks sr)
             (fst (classify_hr_only (f64_heart_rate E peaks sr)))
             (snd (classify_hr_only (f64_heart_rate E peaks sr)))
             (fst (segment_cycles filtered peaks sr)) (snd (segment_cycles filtered peaks sr))
             (score_cycles E (fst (segment_cycles filtered peaks sr)) sr) st = (Inr r, st')"
proof (cases "signal_stage E audio_path")
  case (Inl e)
  with assms show ?thesis by (simp add: analyze_heart_sound_def)
next
  case (Inr x)
  obtain filtered peaks sr where x: "x = (filtered, peaks, sr)" by (cases x) auto
  show ?thesis
    using assms unfolding analyze_heart_sound_def Inr x
    by (simp add: Let_def split_beta)
qed

text \<open>
  Claim C3. A run that reaches the scoring stage with a maximum per-cycle probability below
  0.60 raises NameError before it returns: \<^verbatim>\<open>t\<close> and \<^verbatim>\<open>max_amp\<close> are assigned in the
  branch of \<open>max_prob \<ge> 0.60\<close> only, and line 134 reads \<^verbatim>\<open>t\<close> in every run, after
  \<^verbatim>\<open>plt.subplots\<close> has opened a figure. So a run that returns a result record has the
  risk tier critical.
\<close>

theorem name_error_below_critical:
  "(signal_stage E audio_path = Inr (filtered, peaks, sr) \<and>
    np_max (score_cycles E (fst (segment_cycles filtered peaks sr)) sr) = Inr p \<and> p < 0.60 \<longrightarrow>
      analyze_heart_sound E audio_path st = (Inl (Raised NameError), st @ [[]])) \<and>
   (analyze_heart_sound E audio_path st = (Inr r, st') \<longrightarrow> risk_level r = ''critical'')"
proof (intro conjI impI)
  assume "signal_stage E audio_path = Inr (filtered, peaks, sr) \<and>
    np_max (score_cycles E (fst (segment_cycles filtered peaks sr)) sr) = Inr p \<and> p < 0.60"
  then show "analyze_heart_sound E audio_path st = (Inl (Raised NameError), st @ [[]])"
    by (simp add: analyze_reaches_report report_below)
next
  assume "analyze_heart_sound E audio_path st = (Inr r, st')"
  then obtain filtered' peaks' sr' where
    "report E filtered' peaks' sr' (f64_heart_rate E peaks' sr')
       (fst (classify_hr_only (f64_heart_rate E peaks' sr')))
       (snd (classify_hr_only (f64_heart_rate E peaks' sr')))
       (fst (segment_cycles filtered' peaks' sr')) (snd (segment_cycles filtered' peaks' sr'))
       (score_cycles E (fst (segment_cycles filtered' peaks' sr')) sr') st = (Inr r, st')"
    using analyze_Inr by blast
  from report_Inr [OF this] show "risk_level r = ''critical''" by auto
qed

theorem name_error_below_critical_witness:
  "analyze_heart_sound (stub_env pulse_audio [500, 1500, 2500, 3500, 4500] [0.10, 0.59, 0.10])
       ''calm.wav'' [] = (Inl (Raised NameError), [[]]) \<and>
   (\<exists>r. fst (analyze_heart_sound
               (stub_env pulse_audio [500, 1500, 2500, 3500, 4500] [0.10, 0.60, 0.10])
               ''murmur.wav'' []) = Inr r \<and> risk_level r = ''critical'')"
proof
  show "analyze_heart_sound (stub_env pulse_audio [500, 1500, 2500, 3500, 4500] [0.10, 0.59, 0.10])
       ''calm.wav'' [] = (Inl (Raised NameError), [[]])"
    using name_error_below_critical
      [of "stub_env pulse_audio [500, 1500, 2500, 3500, 4500] [0.10, 0.59, 0.10]" "''calm.wav''"
          "map Num pulse_audio" "[500, 1500, 2500, 3500, 4500]" 1000 "0.59" "[]"]
    by (simp add: pulse_signal stub_scores np_max_def)
next
  obtain r st' where run:
    "analyze_heart_sound (stub_env pulse_audio [500, 1500, 2500, 3500, 4500] [0.10, 0.60, 0.10])
       ''murmur.wav'' [] = (Inr r, st')"
    by (simp add: analyze_heart_sound_def pulse_signal stub_scores report_def np_max_def
        assign_risk_def pulse_amax plot_sound_timeline_def segment_cycles_map Let_def split_beta)
  have "risk_level r = ''critical''"
    using name_error_below_critical
      [of "stub_env pulse_audio [500, 1500, 2500, 3500, 4500] [0.10, 0.60, 0.10]"
          "''murmur.wav''" _ _ _ _ "[]" r st'] run
    by simp
  with run show "\<exists>r. fst (analyze_heart_sound
      (stub_env pulse_audio [500, 1500, 2500, 3500, 4500] [0.10, 0.60, 0.10]) ''murmur.wav'' []) =
        Inr r \<and> risk_level r = ''critical''"
    by simp
qed

lemma pulse_run:
  assumes "np_max probs = Inr p" and "0.60 \<le> p" and "length probs = 3"
  shows "\<exists>r. analyze_heart_sound (stub_env pulse_audio [500, 1500, 2500, 3500, 4500] probs) path st =
           (Inr r, [])"
  using assms
  by (simp add: analyze_heart_sound_def pulse_signal stub_scores report_def
      assign_risk_def pulse_amax plot_sound_timeline_def segment_cycles_map Let_def split_beta)

section \<open>The risk tier\<close>

text \<open>
  The table of lines 117 to 128, on the values that the code assigns: for a non-empty
  sequence of probabilities with maximum \<open>p\<close> (and a filtered signal that is not empty, so
  that the maximum amplitude taken in the last branch exists).
\<close>

lemma assign_risk_table:
  assumes "probs \<noteq> []" and "filtered \<noteq> []"
  shows "\<exists>p. np_max probs = Inr p \<and> p = Max (set probs) \<and>
           (p < 0.30 \<longrightarrow>
              (\<exists>v. assign_risk p filtered sr = Inr (''Normal Heart Sound'', ''low'', v))) \<and>
           (0.30 \<le> p \<and> p < 0.45 \<longrightarrow>
              (\<exists>v. assign_risk p filtered sr = Inr (''Murmur / Borderline'', ''medium'', v))) \<and>
           (0.45 \<le> p \<and> p < 0.60 \<longrightarrow>
              (\<exists>v. assign_risk p filtered sr = Inr (''Mild Abnormality'', ''high'', v))) \<and>
           (0.60 \<le> p \<longrightarrow>
              (\<exists>v. assign_risk p filtered sr = Inr (''Severe Abnormality'', ''critical'', v)))"
proof -
  obtain m where m: "np_amax filtered = Inr m"
    using np_amax_nonempty [OF assms(2)] by blast
  have "np_max probs = Inr (Max (set probs))"
    using assms(1) by (rule np_max_Max)
  moreover have "Max (set probs) < 0.30 \<longrightarrow>
      (\<exists>v. assign_risk (Max (set probs)) filtered sr = Inr (''Normal Heart Sound'', ''low'', v))"
    by (simp add: assign_risk_def)
  moreover have "0.30 \<le> Max (set probs) \<and> Max (set probs) < 0.45 \<longrightarrow>
      (\<exists>v. assign_risk (Max (set probs)) filtered sr = Inr (''Murmur / Borderline'', ''medium'', v))"
    by (simp add: assign_risk_def)
  moreover have "0.45 \<le> Max (set probs) \<and> Max (set probs) < 0.60 \<longrightarrow>
      (\<exists>v. assign_risk (Max (set probs)) filtered sr = Inr (''Mild Abnormality'', ''high'', v))"
    by (simp add: assign_risk_def)
  moreover have "0.60 \<le> Max (set probs) \<longrightarrow>
      (\<exists>v. assign_risk (Max (set probs)) filtered sr = Inr (''Severe Abnormality'', ''critical'', v))"
    using m by (simp add: assign_risk_def)
  ultimately show ?thesis by blast
qed

text \<open>
  Claim C1, at the code. The verdict is taken from the maximum of the per-cycle
  probabilities, and lines 117 to 128 assign the prediction and the tier of the table, the
  lower bounds included; but a run returns them only in the last tier. With the maximum at
  0.29, at 0.30 and at 0.50 the code assigns Normal Heart Sound and low, Murmur /
  Borderline and medium, Mild Abnormality and high, and then raises NameError at line 134
  instead of returning them; with one cycle at 0.60 among cycles at 0.10 (a mean below
  0.30) it returns Severe Abnormality and critical.
\<close>

theorem tier_assigned_but_not_returned:
  "np_max [0.10, 0.29, 0.20] = Inr 0.29 \<and>
   assign_risk 0.29 (map Num pulse_audio) 1000 = Inr (''Normal Heart Sound'', ''low'', None) \<and>
   analyze_heart_sound (stub_env pulse_audio [500, 1500, 2500, 3500, 4500] [0.10, 0.29, 0.20]) ''low.wav'' [] =
     (Inl (Raised NameError), [[]]) \<and>
   np_max [0.10, 0.30, 0.20] = Inr 0.30 \<and>
   assign_risk 0.30 (map Num pulse_audio) 1000 = Inr (''Murmur / Borderline'', ''medium'', None) \<and>
   analyze_heart_sound (stub_env pulse_audio [500, 1500, 2500, 3500, 4500] [0.10, 0.30, 0.20]) ''medium.wav'' [] =
     (Inl (Raised NameError), [[]]) \<and>
   np_max [0.50, 0.10, 0.20] = Inr 0.50 \<and>
   assign_risk 0.50 (map Num pulse_audio) 1000 = Inr (''Mild Abnormality'', ''high'', None) \<and>
   analyze_heart_sound (stub_env pulse_audio [500, 1500, 2500, 3500, 4500] [0.50, 0.10, 0.20]) ''high.wav'' [] =
     (Inl (Raised NameError), [[]]) \<and>
   np_max [0.10, 0.10, 0.60] = Inr 0.60 \<and>
   map_sum id (\<lambda>r. (prediction r, risk_level r))
     (fst (analyze_heart_sound (stub_env pulse_audio [500, 1500, 2500, 3500, 4500] [0.10, 0.10, 0.60]) ''critical.wav'' [])) =
     Inr (''Severe Abnormality'', ''critical'')"
proof -
  have m1: "np_max [0.10, 0.29, 0.20] = Inr (0.29 :: real)" by (simp add: np_max_def)
  have m2: "np_max [0.10, 0.30, 0.20] = Inr (0.30 :: real)" by (simp add: np_max_def)
  have m3: "np_max [0.50, 0.10, 0.20] = Inr (0.50 :: real)" by (simp add: np_max_def)
  have m4: "np_max [0.10, 0.10, 0.60] = Inr (0.60 :: real)" by (simp add: np_max_def)
  have sig: "signal_stage (stub_env pulse_audio [500, 1500, 2500, 3500, 4500] probs) path =
      Inr (map Num pulse_audio, [500, 1500, 2500, 3500, 4500], 1000)" for probs path
    by (simp add: pulse_signal)
  have r1: "analyze_heart_sound (stub_env pulse_audio [500, 1500, 2500, 3500, 4500] [0.10, 0.29, 0.20]) ''low.wav'' [] =
      (Inl (Raised NameError), [[]])"
    unfolding analyze_reaches_report [OF sig] stub_scores
    using report_below [OF m1, where st = "[]"] by simp
  have r2: "analyze_heart_sound (stub_env pulse_audio [500, 1500, 2500, 3500, 4500] [0.10, 0.30, 0.20]) ''medium.wav'' [] =
      (Inl (Raised NameError), [[]])"
    unfolding analyze_reaches_report [OF sig] stub_scores
    using report_below [OF m2, where st = "[]"] by simp
  have r3: "analyze_heart_sound (stub_env pulse_audio [500, 1500, 2500, 3500, 4500] [0.50, 0.10, 0.20]) ''high.wav'' [] =
      (Inl (Raised NameError), [[]])"
    unfolding analyze_reaches_report [OF sig] stub_scores
    using report_below [OF m3, where st = "[]"] by simp
  obtain r where run:
    "analyze_heart_sound (stub_env pulse_audio [500, 1500, 2500, 3500, 4500] [0.10, 0.10, 0.60]) ''critical.wav'' [] =
       (Inr r, [])"
    using pulse_run [OF m4] by auto
  have r4: "prediction r = ''Severe Abnormality'' \<and> risk_level r = ''critical''"
    using report_Inr [OF run [unfolded analyze_reaches_report [OF sig]]] by auto
  have a1: "assign_risk 0.29 (map Num pulse_audio) 1000 = Inr (''Normal Heart Sound'', ''low'', None)"
    and a2: "assign_risk 0.30 (map Num pulse_audio) 1000 =
      Inr (''Murmur / Borderline'', ''medium'', None)"
    and a3: "assign_risk 0.50 (map Num pulse_audio) 1000 = Inr (''Mild Abnormality'', ''high'', None)"
    by (simp_all add: assign_risk_def)
  show ?thesis
    using m1 m2 m3 m4 r1 r2 r3 a1 a2 a3 r4 run by simp
qed

section \<open>The heart rate\<close>





section \<open>Too few beats\<close>

text \<open>
  Claim C5, as the code has it. When the peak detection finds fewer than three peaks, line
  101 returns the record \<^verbatim>\<open>{"error": "Not enough heart beats detected"}\<close>: an ordinary
  return, not an exception (the code has no InsufficientBeatsError). The run goes no
  further: the outcome is the same whatever feature extractor, scaler, classifier and
  renderer are supplied, and no figure is opened. Nothing is tried again: the peak
  detection is run once.
\<close>

theorem insufficient_beats:
  assumes "filter_stage E audio_path = Inr (filtered, envelope, sr)"
    and "length (detect_peaks E envelope sr) < 3"
  shows "analyze_heart_sound
           (E\<lparr>librosa_mfcc := mfcc, scaler_transform := scaler, predict_proba := model,
              savefig := render\<rparr>) audio_path st =
         (Inl (ErrorDict ''Not enough heart beats detected''), st) \<and>
         \<not> raised (fst (analyze_heart_sound
           (E\<lparr>librosa_mfcc := mfcc, scaler_transform := scaler, predict_proba := model,
              savefig := render\<rparr>) audio_path st))"
proof -
  let ?E = "E\<lparr>librosa_mfcc := mfcc, scaler_transform := scaler, predict_proba := model,
              savefig := render\<rparr>"
  have "filter_stage ?E audio_path = filter_stage E audio_path"
    by (simp add: filter_stage_def load_audio_def butter_bandpass_filter_def Let_def split_beta
        split: sum.splits)
  moreover have "detect_peaks ?E envelope sr = detect_peaks E envelope sr"
    by (simp add: detect_peaks_def)
  ultimately have "analyze_heart_sound ?E audio_path st =
      (Inl (ErrorDict ''Not enough heart beats detected''), st)"
    using assms by (simp add: analyze_heart_sound_def signal_stage_def Let_def)
  then show ?thesis by (simp add: raised_def)
qed

theorem insufficient_beats_witness:
  "analyze_heart_sound (stub_env pulse_audio [500, 1500] [0.7]) ''two_beats.wav'' [] =
     (Inl (ErrorDict ''Not enough heart beats detected''), [])"
proof -
  have "length (detect_peaks (stub_env pulse_audio [500, 1500] [0.7]) (map Num pulse_audio) 1000) < 3"
    by (simp add: stub_peaks)
  from insufficient_beats [OF pulse_filter this,
      where mfcc = "librosa_mfcc (stub_env pulse_audio [500, 1500] [0.7])"
        and scaler = "scaler_transform (stub_env pulse_audio [500, 1500] [0.7])"
        and model = "predict_proba (stub_env pulse_audio [500, 1500] [0.7])"
        and render = "savefig (stub_env pulse_audio [500, 1500] [0.7])" and st = "[]"]
  show ?thesis by simp
qed

text \<open>
  A recording on which the peak detector reports two peaks: the run returns the record of
  line 101 and raises nothing.
\<close>

theorem returned_not_raised_counterexample:
  "fst (analyze_heart_sound (stub_env pulse_audio [500, 1500] [0.7]) ''two_beats.wav'' []) =
     Inl (ErrorDict ''Not enough heart beats detected'') \<and>
   \<not> raised (fst (analyze_heart_sound (stub_env pulse_audio [500, 1500] [0.7])
                     ''two_beats.wav'' []))"
  by (simp add: analyze_heart_sound_def pulse_signal raised_def)

section \<open>Silent and empty recordings\<close>

lemma all_zero_max:
  assumes "audio \<noteq> []" and "\<forall>x\<in>set audio. x = 0"
  shows "np_max (map abs audio) = Inr 0"
proof -
  have "set (map abs audio) = {0}" using assms by (cases audio) auto
  moreover have "map abs audio \<noteq> []" using assms(1) by simp
  ultimately show ?thesis by (simp add: np_max_Max)
qed

lemma silent_normalized:
  assumes "audio \<noteq> []" and "\<forall>x\<in>set audio. x = 0"
  shows "normalize_audio audio = Inr (replicate (length audio) NaN)"
  using all_zero_max [OF assms] by (simp add: normalize_audio_def map_replicate_const)

text \<open>
  Claim C4, as the code has it. The code has no InvalidAudioError and line 95 divides without
  a guard. An empty waveform makes \<^verbatim>\<open>np.max\<close> raise ValueError, which ends the run. On a
  silent waveform that is not empty the normalisation raises nothing: every sample becomes
  NaN, and the NaN waveform is handed to the band-pass filter of line 96; the run goes on
  from what the filter makes of it (scipy refuses 27 samples or fewer with ValueError).
\<close>

theorem normalization_unguarded:
  "(load_audio E audio_path = ([], sr) \<longrightarrow>
      analyze_heart_sound E audio_path st = (Inl (Raised ValueError), st)) \<and>
   (load_audio E audio_path = (audio, sr) \<and> audio \<noteq> [] \<and> (\<forall>x\<in>set audio. x = 0) \<longrightarrow>
      normalize_audio audio = Inr (replicate (length audio) NaN) \<and>
      filter_stage E audio_path =
        (case butter_bandpass_filter E (replicate (length audio) NaN) 25 400 sr 4 of
           Inl e \<Rightarrow> Inl e
         | Inr filtered \<Rightarrow> Inr (filtered, hilbert_abs E filtered, sr)))"
proof (intro conjI impI)
  assume "load_audio E audio_path = ([], sr)"
  then show "analyze_heart_sound E audio_path st = (Inl (Raised ValueError), st)"
    by (simp add: analyze_heart_sound_def signal_stage_def filter_stage_def normalize_audio_def
        np_max_def)
next
  assume a: "load_audio E audio_path = (audio, sr) \<and> audio \<noteq> [] \<and> (\<forall>x\<in>set audio. x = 0)"
  then show "normalize_audio audio = Inr (replicate (length audio) NaN)"
    by (simp add: silent_normalized)
  with a show "filter_stage E audio_path =
        (case butter_bandpass_filter E (replicate (length audio) NaN) 25 400 sr 4 of
           Inl e \<Rightarrow> Inl e
         | Inr filtered \<Rightarrow> Inr (filtered, hilbert_abs E filtered, sr))"
    by (simp add: filter_stage_def Let_def split: sum.splits)
qed

theorem normalization_unguarded_witness:
  "analyze_heart_sound (stub_env [] [] []) ''empty.wav'' [] = (Inl (Raised ValueError), []) \<and>
   filter_stage (stub_env (replicate 5000 0) [] []) ''silent.wav'' =
     Inr (replicate 5000 NaN, replicate 5000 NaN, 1000) \<and>
   filter_stage (stub_env [0, 0, 0] [] []) ''short.wav'' = Inl (Raised ValueError)"
proof (intro conjI)
  show "analyze_heart_sound (stub_env [] [] []) ''empty.wav'' [] = (Inl (Raised ValueError), [])"
    using normalization_unguarded [of "stub_env [] [] []" "''empty.wav''" 1000 "[]"]
    by (simp add: stub_load)
next
  show "filter_stage (stub_env (replicate 5000 0) [] []) ''silent.wav'' =
      Inr (replicate 5000 NaN, replicate 5000 NaN, 1000)"
    using normalization_unguarded
      [of "stub_env (replicate 5000 0) [] []" "''silent.wav''" 1000 "[]" "replicate 5000 0"]
    by (simp add: stub_load stub_filter stub_envelope)
next
  show "filter_stage (stub_env [0, 0, 0] [] []) ''short.wav'' = Inl (Raised ValueError)"
    using normalization_unguarded
      [of "stub_env [0, 0, 0] [] []" "''short.wav''" 1000 "[]" "[0, 0, 0]"]
    by (simp add: stub_load stub_filter)
qed

text \<open>
  Five seconds of silence at 1000 Hz: the normalisation raises nothing and returns 5000
  NaN, which go through the filter and the envelope; the peak detector finds no peak in
  them, and the run ends with the record of line 101 about the beats, not with an error
  about the audio.
\<close>

theorem silent_input_counterexample:
  "normalize_audio (replicate 5000 0) = Inr (replicate 5000 NaN) \<and>
   analyze_heart_sound (stub_env (replicate 5000 0) [] []) ''silent.wav'' [] =
     (Inl (ErrorDict ''Not enough heart beats detected''), [])"
proof -
  have n: "normalize_audio (replicate 5000 0) = Inr (replicate 5000 NaN)"
    using silent_normalized [of "replicate 5000 0"] by simp
  then have "filter_stage (stub_env (replicate 5000 0) [] []) ''silent.wav'' =
      Inr (replicate 5000 NaN, replicate 5000 NaN, 1000)"
    by (simp add: filter_stage_def stub_load stub_filter stub_envelope Let_def)
  then have "analyze_heart_sound (stub_env (replicate 5000 0) [] []) ''silent.wav'' [] =
     (Inl (ErrorDict ''Not enough heart beats detected''), [])"
    by (simp add: analyze_heart_sound_def signal_stage_def stub_peaks Let_def)
  with n show ?thesis by simp
qed

section \<open>The returned record\<close>




section \<open>The end-to-end scenario\<close>

text \<open>
  Claim C9, at the code. For the recording of five pulses one second apart at 1000 Hz and a
  classifier stub that gives every cycle 0.1, the five peaks give three cycles, the heart
  rate is 60 and its status Normal Heart Rate, and lines 117 to 119 assign Normal Heart
  Sound and low; but the run does not return them: it raises NameError at line 134.
\<close>

theorem pulse_scenario_raises:
  "length (fst (segment_cycles (map Num pulse_audio) [500, 1500, 2500, 3500, 4500] 1000)) = 3 \<and>
   heart_rate_of [500, 1500, 2500, 3500, 4500] 1000 = 60 \<and>
   classify_hr_only 60 = (''Normal Heart Rate'', ''green'') \<and>
   np_max [0.1, 0.1, 0.1] = Inr 0.1 \<and>
   assign_risk 0.1 (map Num pulse_audio) 1000 = Inr (''Normal Heart Sound'', ''low'', None) \<and>
   analyze_heart_sound (stub_env pulse_audio [500, 1500, 2500, 3500, 4500] [0.1, 0.1, 0.1])
     ''pulses.wav'' [] = (Inl (Raised NameError), [[]])"
proof -
  have mx: "np_max [0.1, 0.1, 0.1] = Inr (0.1 :: real)" by (simp add: np_max_def)
  have sig: "signal_stage (stub_env pulse_audio [500, 1500, 2500, 3500, 4500] [0.1, 0.1, 0.1])
      ''pulses.wav'' = Inr (map Num pulse_audio, [500, 1500, 2500, 3500, 4500], 1000)"
    by (simp add: pulse_signal)
  have "analyze_heart_sound (stub_env pulse_audio [500, 1500, 2500, 3500, 4500] [0.1, 0.1, 0.1])
     ''pulses.wav'' [] = (Inl (Raised NameError), [[]])"
    unfolding analyze_reaches_report [OF sig] stub_scores
    using report_below [OF mx, where st = "[]"] by simp
  moreover have "length (fst (segment_cycles (map Num pulse_audio)
      [500, 1500, 2500, 3500, 4500] 1000)) = 3"
    by (simp add: segment_cycles_map)
  moreover have "heart_rate_of [500, 1500, 2500, 3500, 4500] 1000 = 60"
    by (simp add: heart_rate_of_def)
  moreover have "classify_hr_only 60 = (''Normal Heart Rate'', ''green'')"
    by (simp add: classify_hr_only_def)
  moreover have "assign_risk 0.1 (map Num pulse_audio) 1000 =
      Inr (''Normal Heart Sound'', ''low'', None)"
    by (simp add: assign_risk_def)
  ultimately show ?thesis using mx by simp
qed

section \<open>Repeated runs\<close>

text \<open>
  What two runs on the same recording with the same artifacts share, whatever figures pyplot
  holds open when they start: the failure, or every field of the record but the images, and
  the images of the two figures that the run itself draws. The images start with one image
  for each figure that was open before the run.
\<close>

lemma runs_agree_up_to_open_figures:
  "(analyze_heart_sound E audio_path st1 = (Inl e, s1) \<longrightarrow>
      (\<exists>s2. analyze_heart_sound E audio_path st2 = (Inl e, s2))) \<and>
   (analyze_heart_sound E audio_path st1 = (Inr r1, s1) \<longrightarrow>
      analyze_heart_sound E audio_path st2 =
        (Inr (r1\<lparr>images := map (savefig E) st2 @ drop (length st1) (images r1)\<rparr>), []))"
proof (cases "analyze_heart_sound E audio_path []")
  case (Pair out figs)
  show ?thesis
  proof (cases out)
    case (Inl e0)
    then show ?thesis
      using analyze_state [of E audio_path st1] analyze_state [of E audio_path st2] Pair
      by simp
  next
    case (Inr r0)
    then show ?thesis
      using analyze_state [of E audio_path st1] analyze_state [of E audio_path st2] Pair
      by auto
  qed
qed

text \<open>
  Claim C10, at the code. Every run that returns closes the figures it saves, so that a run
  starts with no figure open and two runs on the same recording return the same record; but
  the run that raises NameError at line 134 leaves the figure of line 133 open. After such a
  run (here on a recording scored below 0.60), the first run on a recording scored 0.70
  returns the image of that figure as well, three images, and the second run on the same
  recording two: the two records differ.
\<close>

theorem leftover_figure_changes_result:
  "snd (analyze_heart_sound (stub_env pulse_audio [500, 1500, 2500, 3500, 4500] [0.1, 0.1, 0.1])
          ''calm.wav'' []) = [[]] \<and>
   map_sum id (\<lambda>r. length (images r))
     (fst (analyze_heart_sound (stub_env pulse_audio [500, 1500, 2500, 3500, 4500] [0.7, 0.1, 0.1])
             ''murmur.wav'' [[]])) = Inr 3 \<and>
   snd (analyze_heart_sound (stub_env pulse_audio [500, 1500, 2500, 3500, 4500] [0.7, 0.1, 0.1])
          ''murmur.wav'' [[]]) = [] \<and>
   map_sum id (\<lambda>r. length (images r))
     (fst (analyze_heart_sound (stub_env pulse_audio [500, 1500, 2500, 3500, 4500] [0.7, 0.1, 0.1])
             ''murmur.wav'' [])) = Inr 2 \<and>
   fst (analyze_heart_sound (stub_env pulse_audio [500, 1500, 2500, 3500, 4500] [0.7, 0.1, 0.1])
          ''murmur.wav'' [[]]) \<noteq>
   fst (analyze_heart_sound (stub_env pulse_audio [500, 1500, 2500, 3500, 4500] [0.7, 0.1, 0.1])
          ''murmur.wav'' [])"
proof -
  let ?E = "stub_env pulse_audio [500, 1500, 2500, 3500, 4500] [0.7, 0.1, 0.1]"
  let ?C = "stub_env pulse_audio [500, 1500, 2500, 3500, 4500] [0.1, 0.1, 0.1]"
  have mx: "np_max [0.7, 0.1, 0.1] = Inr (0.7 :: real)" by (simp add: np_max_def)
  have mc: "np_max [0.1, 0.1, 0.1] = Inr (0.1 :: real)" by (simp add: np_max_def)
  have sig: "signal_stage ?C ''calm.wav'' =
      Inr (map Num pulse_audio, [500, 1500, 2500, 3500, 4500], 1000)"
    by (simp add: pulse_signal)
  have calm: "analyze_heart_sound ?C ''calm.wav'' [] = (Inl (Raised NameError), [[]])"
    unfolding analyze_reaches_report [OF sig] stub_scores
    using report_below [OF mc, where st = "[]"] by simp
  obtain r where run: "analyze_heart_sound ?E ''murmur.wav'' [] = (Inr r, [])"
    using pulse_run [OF mx] by auto
  have two: "length (images r) = 2"
    using report_Inr [OF run [unfolded analyze_reaches_report
      [OF pulse_signal [of "[500, 1500, 2500, 3500, 4500]" "[0.7, 0.1, 0.1]" "''murmur.wav''",
         simplified]]]]
    by auto
  have again: "analyze_heart_sound ?E ''murmur.wav'' [[]] =
      (Inr (r\<lparr>images := map (savefig ?E) [[]] @ images r\<rparr>), [])"
    using analyze_state [of ?E "''murmur.wav''" "[[]]"] run by simp
  have "r\<lparr>images := map (savefig ?E) [[]] @ images r\<rparr> \<noteq> r"
  proof
    assume "r\<lparr>images := map (savefig ?E) [[]] @ images r\<rparr> = r"
    then have "images (r\<lparr>images := map (savefig ?E) [[]] @ images r\<rparr>) = images r" by simp
    then show False by simp
  qed
  with calm run again two show ?thesis by simp
qed

end
